theory Spec2Isabelle
  imports Complex_Main
begin

section \<open>Python strings\<close>

text \<open>
  A Python \<open>str\<close> is a sequence of Unicode code points. It is modelled as a list of
  natural numbers, one per code point, so that \<open>length\<close> counts what Python's \<open>len\<close>
  counts. \<open>str\<close> turns an (ASCII) literal of the source into that representation.
\<close>

type_synonym codepoint = nat
type_synonym str = "codepoint list"

definition str :: "string \<Rightarrow> str" where
  "str s = map of_char s"

text \<open>The separator \<open>"\n"\<close> of the source: the line feed, U+000A.\<close>

definition nl :: codepoint where
  "nl = 0x0A"

text \<open>
  The characters that \<open>str.strip()\<close> removes when it is called without an argument: the
  code points for which \<open>str.isspace\<close> holds (CPython's \<open>_PyUnicode_IsWhitespace\<close>).
\<close>

definition isspace :: "codepoint \<Rightarrow> bool" where
  "isspace c \<longleftrightarrow>
     (0x09 \<le> c \<and> c \<le> 0x0D) \<or> (0x1C \<le> c \<and> c \<le> 0x20) \<or> c = 0x85 \<or> c = 0xA0 \<or>
     c = 0x1680 \<or> (0x2000 \<le> c \<and> c \<le> 0x200A) \<or> c = 0x2028 \<or> c = 0x2029 \<or>
     c = 0x202F \<or> c = 0x205F \<or> c = 0x3000"

text \<open>\<open>s.lstrip()\<close>, \<open>s.rstrip()\<close> and \<open>s.strip()\<close>.\<close>

definition lstrip :: "str \<Rightarrow> str" where
  "lstrip s = dropWhile isspace s"

definition rstrip :: "str \<Rightarrow> str" where
  "rstrip s = rev (dropWhile isspace (rev s))"

definition strip :: "str \<Rightarrow> str" where
  "strip s = rstrip (lstrip s)"

text \<open>
  \<open>s.strip(chars)\<close>: every leading and every trailing character that occurs in \<open>chars\<close>
  is removed, at both ends.
\<close>

definition strip_chars :: "str \<Rightarrow> str \<Rightarrow> str" where
  "strip_chars chars s =
     rev (dropWhile (\<lambda>c. c \<in> set chars) (rev (dropWhile (\<lambda>c. c \<in> set chars) s)))"

text \<open>
  \<open>s.rsplit(sep, maxsplit)\<close> for a separator of one character: at most \<open>maxsplit\<close> splits
  are made, the rightmost ones; a string without the separator comes back whole.
\<close>

fun rsplit :: "codepoint \<Rightarrow> nat \<Rightarrow> str \<Rightarrow> str list" where
  "rsplit sep 0 s = [s]"
| "rsplit sep (Suc n) s =
     (if sep \<in> set s
      then rsplit sep n (rev (tl (dropWhile (\<lambda>c. c \<noteq> sep) (rev s))))
             @ [rev (takeWhile (\<lambda>c. c \<noteq> sep) (rev s))]
      else [s])"

section \<open>Errors\<close>

text \<open>
  Every error of the two modules is a Python \<open>ValueError\<close>. \<open>ValueError\<close> carries the
  rendered message. The message of \<open>from_llm\<close> renders a set, whose element order Python
  does not fix; \<open>InputVariablesError\<close> keeps the two values that message renders (the
  expected set and the declared list) in place of the text. \<open>KeyError\<close> is the lookup
  of a key that a dictionary does not have, and \<open>UpstreamError\<close> stands for whatever
  the completion call raises, which the code passes on untouched.
\<close>

datatype error =
    ValueError str
  | InputVariablesError "str set" "str list"
  | KeyError str
  | UpstreamError str

text \<open>
  Unpacking a list into two targets (\<open>reasoning, verdict = ...\<close>) raises \<open>ValueError\<close>
  unless the list has exactly two elements.
\<close>

fun unpack2 :: "'a list \<Rightarrow> error + 'a \<times> 'a" where
  "unpack2 [] = Inl (ValueError (str ''not enough values to unpack (expected 2, got 0)''))"
| "unpack2 [a] = Inl (ValueError (str ''not enough values to unpack (expected 2, got 1)''))"
| "unpack2 [a, b] = Inr (a, b)"
| "unpack2 (a # b # c # xs) = Inl (ValueError (str ''too many values to unpack (expected 2)''))"

section \<open>The verdict parser: \<open>PairwiseStringResultOutputParser\<close>\<close>

text \<open>
  The dictionary that \<open>parse\<close> returns, with its three fixed keys. In \<open>parse\<close> a local
  variable of the source that has the name of a key, or a name that ends in an underscore
  (\<open>verdict_\<close>, \<open>input_\<close>, \<open>prompt_\<close>), is written with a prime.
\<close>

record result =
  reasoning :: str
  "value" :: "str option"
  score :: "real option"

text \<open>
  The score table \<open>{"A": 1, "B": 0, None: 0.5}\<close>; \<open>.get\<close> is the application of the
  map, with \<open>None\<close> for a key that is not in the table.
\<close>

definition score_table :: "str option \<rightharpoonup> real" where
  "score_table = [Some (str ''A'') \<mapsto> 1, Some (str ''B'') \<mapsto> 0, None \<mapsto> 1 / 2]"

definition parse :: "str \<Rightarrow> error + result" where
  "parse text =
     (case unpack2 (rsplit nl 1 (strip text)) of
        Inl e \<Rightarrow> Inl e
      | Inr (reasoning', verdict) \<Rightarrow>
          (let verdict = strip_chars (str '']'') (strip_chars (str ''['') verdict) in
           if verdict \<notin> {str ''A'', str ''B'', str ''C''}
           then Inl (ValueError (str ''Invalid verdict: '' @ verdict @
                       str ''. Verdict must be one of 'A', 'B', or 'C'.''))
           else
             (let verdict' = (if verdict = str ''C'' then None else Some verdict);
                  score' = score_table verdict'
              in Inr \<lparr>reasoning = reasoning', value = verdict', score = score'\<rparr>)))"

section \<open>Argument validation: \<open>_EvalArgsMixin\<close>\<close>

text \<open>
  The mixin reads four properties of \<open>self\<close> and the name of its class; a subclass
  overrides the properties. An evaluator is therefore the record of what these
  attributes evaluate to on the object at hand.
\<close>

record evaluator =
  class_name :: str
  requires_reference :: bool
  requires_input :: bool
  skip_input_warning :: str
  skip_reference_warning :: str

text \<open>The attributes as the mixin itself defines them, for a class of the given name.\<close>

definition EvalArgsMixin :: "str \<Rightarrow> evaluator" where
  "EvalArgsMixin name =
     \<lparr>class_name = name,
      requires_reference = False,
      requires_input = False,
      skip_input_warning = str ''Ignoring input in '' @ name @ str '', as it is not expected.'',
      skip_reference_warning =
        str ''Ignoring reference in '' @ name @ str '', as it is not expected.''\<rparr>"

text \<open>
  \<open>_check_evaluation_args\<close>. The result pairs the warnings that \<open>warn\<close> has emitted, in
  order, with the outcome: \<open>Inl\<close> the error raised, \<open>Inr ()\<close> the return of \<open>None\<close>.
  A \<open>raise\<close> ends the function, so nothing after it is emitted.
\<close>

definition check_evaluation_args ::
  "evaluator \<Rightarrow> str option \<Rightarrow> str option \<Rightarrow> str list \<times> (error + unit)" where
  "check_evaluation_args self reference input =
     (if requires_input self \<and> input = None
      then ([], Inl (ValueError (class_name self @ str '' requires an input string.'')))
      else
        (let warned = (if input \<noteq> None \<and> \<not> requires_input self
                       then [skip_input_warning self] else [])
         in if requires_reference self \<and> reference = None
            then (warned,
                  Inl (ValueError (class_name self @ str '' requires a reference string.'')))
            else if reference \<noteq> None \<and> \<not> requires_reference self
            then (warned @ [skip_reference_warning self], Inr ())
            else (warned, Inr ())))"

text \<open>
  \<open>PairwiseStringEvaluator.evaluate_string_pairs\<close> and \<open>aevaluate_string_pairs\<close>: the
  check, then the abstract method \<open>_evaluate_string_pairs\<close> (\<open>_aevaluate_string_pairs\<close>)
  of the object, here the argument \<open>impl\<close>, called with the four keyword arguments.
  The awaited coroutine of the asynchronous path is modelled by the value it yields.
\<close>

definition evaluate_string_pairs ::
  "evaluator \<Rightarrow> (str \<Rightarrow> str \<Rightarrow> str option \<Rightarrow> str option \<Rightarrow> error + 'r) \<Rightarrow>
   str \<Rightarrow> str \<Rightarrow> str option \<Rightarrow> str option \<Rightarrow> str list \<times> (error + 'r)" where
  "evaluate_string_pairs self impl prediction prediction_b reference input =
     (case check_evaluation_args self reference input of
        (warned, Inl e) \<Rightarrow> (warned, Inl e)
      | (warned, Inr _) \<Rightarrow> (warned, impl prediction prediction_b reference input))"

definition aevaluate_string_pairs ::
  "evaluator \<Rightarrow> (str \<Rightarrow> str \<Rightarrow> str option \<Rightarrow> str option \<Rightarrow> error + 'r) \<Rightarrow>
   str \<Rightarrow> str \<Rightarrow> str option \<Rightarrow> str option \<Rightarrow> str list \<times> (error + 'r)" where
  "aevaluate_string_pairs self impl prediction prediction_b reference input =
     (case check_evaluation_args self reference input of
        (warned, Inl e) \<Rightarrow> (warned, Inl e)
      | (warned, Inr _) \<Rightarrow> (warned, impl prediction prediction_b reference input))"

section \<open>The pairwise comparison evaluator: \<open>PairwiseStringEvalChain\<close>\<close>

text \<open>
  Of the prompt template only the declared input variables are read. The chain keeps the
  name of the class it was made from (\<open>self.__class__.__name__\<close>), the model and the
  prompt. Where a parameter of the source has the name of a field, the parameter is
  written with a prime.
\<close>

record prompt_template =
  input_variables :: "str list"
  template :: str

record 'llm chain =
  cls_name :: str
  llm :: 'llm
  prompt :: prompt_template

text \<open>
  The chain as the mixin sees it: \<open>requires_reference\<close>, \<open>requires_input\<close> and
  \<open>_skip_reference_warning\<close> are the overriding properties of the class.
\<close>

definition as_evaluator :: "'llm chain \<Rightarrow> evaluator" where
  "as_evaluator self =
     (EvalArgsMixin (cls_name self))
       \<lparr>requires_reference := str ''reference'' \<in> set (input_variables (prompt self)),
        requires_input := True,
        skip_reference_warning :=
          str ''Ignoring reference in '' @ cls_name self @ str '', as it is not expected.'' @
          nl # str ''To use a reference, initialize PairwiseStringEvalChain with'' @
          str '' `requires_reference=True` or with a prompt with 'reference' as an'' @
          str '' input variable.''\<rparr>"

text \<open>
  \<open>from_llm\<close>. The two default templates \<open>PROMPT\<close> and \<open>PROMPT_WITH_REFERENCE\<close> belong to
  a module that is not part of the sources at hand; they are parameters. The call
  \<open>cls(llm=llm, prompt=prompt_)\<close> is the construction of the record.
\<close>

definition from_llm ::
  "prompt_template \<Rightarrow> prompt_template \<Rightarrow> str \<Rightarrow> 'llm \<Rightarrow> prompt_template option \<Rightarrow> bool \<Rightarrow>
   error + 'llm chain" where
  "from_llm PROMPT PROMPT_WITH_REFERENCE cls llm' prompt' requires_reference' =
     (let expected_input_vars = {str ''prediction'', str ''prediction_b'', str ''input''};
          (expected_input_vars, prompt'') =
            (case prompt' of
               None \<Rightarrow>
                 if requires_reference'
                 then (insert (str ''reference'') expected_input_vars, PROMPT_WITH_REFERENCE)
                 else (expected_input_vars, PROMPT)
             | Some p \<Rightarrow>
                 (if requires_reference'
                  then insert (str ''reference'') expected_input_vars
                  else expected_input_vars, p))
      in if expected_input_vars \<noteq> set (input_variables prompt'')
         then Inl (InputVariablesError expected_input_vars (input_variables prompt''))
         else Inr \<lparr>cls_name = cls, llm = llm', prompt = prompt''\<rparr>)"

text \<open>
  \<open>_prepare_input\<close>. \<open>not input\<close> holds of \<open>None\<close> and of the empty string; the reference
  is only compared with \<open>None\<close>.
\<close>

definition prepare_input ::
  "'llm chain \<Rightarrow> str \<Rightarrow> str \<Rightarrow> str option \<Rightarrow> str option \<Rightarrow> error + (str \<rightharpoonup> str)" where
  "prepare_input self prediction prediction_b input reference =
     (let input' = [str ''prediction'' \<mapsto> prediction, str ''prediction_b'' \<mapsto> prediction_b] in
      case (if requires_input (as_evaluator self)
            then (case input of
                    None \<Rightarrow> Inl (ValueError (str ''Input is require for this comparison evaluator''))
                  | Some i \<Rightarrow>
                      if i = []
                      then Inl (ValueError (str ''Input is require for this comparison evaluator''))
                      else Inr (input'(str ''input'' \<mapsto> i)))
            else Inr input') of
        Inl e \<Rightarrow> Inl e
      | Inr input' \<Rightarrow>
          (if requires_reference (as_evaluator self)
           then (case reference of
                   None \<Rightarrow>
                     Inl (ValueError (str ''Reference is required for this comparison evaluator''))
                 | Some r \<Rightarrow> Inr (input'(str ''reference'' \<mapsto> r)))
           else Inr input'))"

text \<open>
  \<open>_evaluate_string_pairs\<close> and \<open>_aevaluate_string_pairs\<close> of the chain. The completion
  call (\<open>self(inputs=input_, ...)\<close>, respectively \<open>await self.acall(inputs=input_, ...)\<close>)
  is code of the chain library: it is the parameter \<open>call\<close> (\<open>acall\<close>), a function from
  the payload to the dictionary it returns or the error it raises. The callbacks and the
  other pass-through options are left out.
\<close>

definition private_evaluate_string_pairs ::
  "((str \<rightharpoonup> str) \<Rightarrow> error + (str \<rightharpoonup> 'r)) \<Rightarrow> 'llm chain \<Rightarrow>
   str \<Rightarrow> str \<Rightarrow> str option \<Rightarrow> str option \<Rightarrow> error + 'r" where
  "private_evaluate_string_pairs call self prediction prediction_b reference input =
     (case prepare_input self prediction prediction_b input reference of
        Inl e \<Rightarrow> Inl e
      | Inr input' \<Rightarrow>
          (case call input' of
             Inl e \<Rightarrow> Inl e
           | Inr result \<Rightarrow>
               (case result (str ''text'') of
                  None \<Rightarrow> Inl (KeyError (str ''text''))
                | Some text \<Rightarrow> Inr text)))"

definition private_aevaluate_string_pairs ::
  "((str \<rightharpoonup> str) \<Rightarrow> error + (str \<rightharpoonup> 'r)) \<Rightarrow> 'llm chain \<Rightarrow>
   str \<Rightarrow> str \<Rightarrow> str option \<Rightarrow> str option \<Rightarrow> error + 'r" where
  "private_aevaluate_string_pairs acall self prediction prediction_b reference input =
     (case prepare_input self prediction prediction_b input reference of
        Inl e \<Rightarrow> Inl e
      | Inr input' \<Rightarrow>
          (case acall input' of
             Inl e \<Rightarrow> Inl e
           | Inr result \<Rightarrow>
               (case result (str ''text'') of
                  None \<Rightarrow> Inl (KeyError (str ''text''))
                | Some text \<Rightarrow> Inr text)))"

section \<open>Sample values\<close>

text \<open>
  The values at which the theorems below are evaluated: a template without and a template
  with a reference variable, the chains made from them, and a completion call that
  answers every payload with the parsed reply of the end-to-end scenario.
\<close>

definition plain_prompt :: prompt_template where
  "plain_prompt = \<lparr>input_variables = [str ''prediction'', str ''prediction_b'', str ''input''],
                    template = str ''{input} {prediction} {prediction_b}''\<rparr>"

definition reference_prompt :: prompt_template where
  "reference_prompt =
     \<lparr>input_variables = [str ''prediction'', str ''prediction_b'', str ''input'', str ''reference''],
      template = str ''{input} {prediction} {prediction_b} {reference}''\<rparr>"

definition plain_chain :: "unit chain" where
  "plain_chain = \<lparr>cls_name = str ''PairwiseStringEvalChain'', llm = (), prompt = plain_prompt\<rparr>"

definition reference_chain :: "unit chain" where
  "reference_chain =
     \<lparr>cls_name = str ''PairwiseStringEvalChain'', llm = (), prompt = reference_prompt\<rparr>"

definition canned_call :: "(str \<rightharpoonup> str) \<Rightarrow> error + (str \<rightharpoonup> result)" where
  "canned_call payload =
     Inr [str ''text'' \<mapsto> \<lparr>reasoning = str ''Both are correct, B is more detailed.'',
                            value = Some (str ''B''), score = Some 0\<rparr>]"

section \<open>Facts about the string functions\<close>

lemma rsplit_no_sep: "sep \<notin> set s \<Longrightarrow> rsplit sep n s = [s]"
  by (cases n) simp_all

lemma rsplit_last_sep:
  assumes "sep \<notin> set b"
  shows "rsplit sep 1 (a @ sep # b) = [a, b]"
proof -
  have t: "takeWhile (\<lambda>c. c \<noteq> sep) (rev b @ sep # rev a) = rev b"
    using assms by (subst takeWhile_append2) auto
  have d: "dropWhile (\<lambda>c. c \<noteq> sep) (rev b @ sep # rev a) = sep # rev a"
    using assms by (subst dropWhile_append2) auto
  show ?thesis by (simp add: t d)
qed

lemma lstrip_append:
  assumes "\<exists>c\<in>set r. \<not> isspace c"
  shows "lstrip (r @ v) = lstrip r @ v"
proof -
  from assms obtain c where "c \<in> set r" and "\<not> isspace c" by blast
  then show ?thesis by (simp add: lstrip_def dropWhile_append1 [of c])
qed

lemma rstrip_append:
  assumes "v \<noteq> []" and "\<not> isspace (last v)"
  shows "rstrip (u @ v) = u @ v"
proof -
  from assms obtain w x where v: "v = w @ [x]" and x: "\<not> isspace x"
    by (metis append_butlast_last_id)
  show ?thesis by (simp add: rstrip_def v x)
qed

lemma strip_append:
  assumes "\<exists>c\<in>set r. \<not> isspace c" and "v \<noteq> []" and "\<not> isspace (last v)"
  shows "strip (r @ v) = lstrip r @ v"
  by (simp add: strip_def lstrip_append [OF assms(1)] rstrip_append [OF assms(2,3)])

lemma strip_blank_append:
  assumes "\<forall>c\<in>set r. isspace c" and "v \<noteq> []" and "\<not> isspace (hd v)" and "\<not> isspace (last v)"
  shows "strip (r @ v) = v"
proof -
  have "lstrip (r @ v) = v"
    using assms(1,2,3) by (cases v) (simp_all add: lstrip_def dropWhile_append2)
  moreover have "rstrip ([] @ v) = [] @ v"
    using assms(2,4) by (rule rstrip_append)
  ultimately show ?thesis by (simp add: strip_def)
qed

lemma dropWhile_replicate:
  assumes "\<not> P t" and "P a"
  shows "dropWhile P (replicate n a @ t # ys) = t # ys"
  using assms by (induction n) simp_all

lemma strip_chars_left:
  assumes "t \<noteq> a" and "b \<noteq> a"
  shows "strip_chars [a] (replicate n a @ t # replicate m b) = t # replicate m b"
proof -
  have "dropWhile (\<lambda>c. c \<in> set [a]) (replicate n a @ t # replicate m b) = t # replicate m b"
    using assms(1) by (simp add: dropWhile_replicate)
  moreover have "dropWhile (\<lambda>c. c \<in> set [a]) (rev (t # replicate m b)) = rev (t # replicate m b)"
    using assms by (cases m) (simp_all add: replicate_append_same)
  ultimately show ?thesis by (simp add: strip_chars_def del: rev.simps)
qed

lemma strip_chars_right:
  assumes "t \<noteq> b"
  shows "strip_chars [b] (t # replicate m b) = [t]"
  using assms by (simp add: strip_chars_def dropWhile_replicate)

lemma bracket_token:
  assumes "t \<noteq> of_char CHR ''[''" and "t \<noteq> of_char CHR '']''"
  shows "strip_chars (str '']'') (strip_chars (str ''['')
           (replicate n (of_char CHR ''['') @ t # replicate m (of_char CHR '']''))) = [t]"
proof -
  have "strip_chars [of_char CHR ''[''] (replicate n (of_char CHR ''['') @ t # replicate m (of_char CHR '']''))
        = t # replicate m (of_char CHR '']'')"
    by (rule strip_chars_left) (use assms in simp_all)
  moreover have "strip_chars [of_char CHR '']''] (t # replicate m (of_char CHR '']'')) = [t]"
    by (rule strip_chars_right) (use assms in simp)
  ultimately show ?thesis by (simp add: str_def)
qed

section \<open>The parser on a reply that ends in a bracketed token\<close>

lemma concat_replicate_single: "concat (replicate n [a]) = replicate n a"
  by (induction n) simp_all

lemma isspace_nl: "isspace nl"
  by (simp add: isspace_def nl_def)

lemma split_bracketed:
  assumes r: "\<exists>c\<in>set r. \<not> isspace c"
    and t: "\<not> isspace t" "t \<noteq> of_char CHR ''[''" "t \<noteq> of_char CHR '']''"
  shows "rsplit nl 1 (strip (r @ nl # concat (replicate n (str ''['')) @ t # concat (replicate m (str '']''))))
         = [lstrip r, replicate n (of_char CHR ''['') @ t # replicate m (of_char CHR '']'')]"
proof -
  let ?line = "replicate n (of_char CHR ''['') @ t # replicate m (of_char CHR '']'')"
  have line: "concat (replicate n (str ''['')) @ t # concat (replicate m (str '']'')) = ?line"
    by (simp add: str_def concat_replicate_single)
  have last_line: "\<not> isspace (last (nl # ?line))"
    using t(1) by (cases m) (simp_all add: isspace_def)
  have s: "strip (r @ nl # ?line) = lstrip r @ nl # ?line"
    using r _ last_line by (rule strip_append) simp
  have "nl \<notin> set ?line"
    using t(1) isspace_nl by (auto simp: nl_def)
  then have "rsplit nl 1 (lstrip r @ nl # ?line) = [lstrip r, ?line]"
    by (rule rsplit_last_sep)
  then show ?thesis
    unfolding line s .
qed

lemma parse_bracketed:
  assumes r: "\<exists>c\<in>set r. \<not> isspace c"
    and t: "\<not> isspace t" "t \<noteq> of_char CHR ''[''" "t \<noteq> of_char CHR '']''"
  shows "parse (r @ nl # concat (replicate n (str ''['')) @ t # concat (replicate m (str '']''))) =
         (if [t] \<notin> {str ''A'', str ''B'', str ''C''}
          then Inl (ValueError (str ''Invalid verdict: '' @ [t] @
                      str ''. Verdict must be one of 'A', 'B', or 'C'.''))
          else Inr \<lparr>reasoning = lstrip r,
                    value = (if [t] = str ''C'' then None else Some [t]),
                    score = score_table (if [t] = str ''C'' then None else Some [t])\<rparr>)"
  unfolding parse_def split_bracketed [OF assms] unpack2.simps sum.case prod.case Let_def
    bracket_token [OF t(2,3)]
  by simp

lemma parse_blank_reasoning:
  assumes r: "\<forall>c\<in>set r. isspace c"
    and t: "\<not> isspace t" "t \<noteq> of_char CHR ''[''" "t \<noteq> of_char CHR '']''"
  shows "parse (r @ nl # concat (replicate n (str ''['')) @ t # concat (replicate m (str '']''))) =
         Inl (ValueError (str ''not enough values to unpack (expected 2, got 1)''))"
proof -
  let ?line = "replicate n (of_char CHR ''['') @ t # replicate m (of_char CHR '']'')"
  have line: "concat (replicate n (str ''['')) @ t # concat (replicate m (str '']'')) = ?line"
    by (simp add: str_def concat_replicate_single)
  have hd_line: "\<not> isspace (hd ?line)"
    using t(1) by (cases n) (simp_all add: isspace_def)
  have last_line: "\<not> isspace (last ?line)"
    using t(1) by (cases m) (simp_all add: isspace_def)
  have "strip ((r @ [nl]) @ ?line) = ?line"
    using _ _ hd_line last_line by (rule strip_blank_append) (use r isspace_nl in auto)
  then have s: "strip (r @ nl # ?line) = ?line"
    by simp
  have "nl \<notin> set ?line"
    using t(1) isspace_nl by (auto simp: nl_def)
  then have "rsplit nl 1 ?line = [?line]"
    by (rule rsplit_no_sep)
  then show ?thesis
    unfolding parse_def line s by simp
qed

lemma lstrip_id: "r \<noteq> [] \<Longrightarrow> \<not> isspace (hd r) \<Longrightarrow> lstrip r = r"
  by (cases r) (simp_all add: lstrip_def)

section \<open>Claims about the verdict parser\<close>

text \<open>
  C1, as the code has it. The parser trims the reply before it splits it. For every
  reasoning text that has a character other than whitespace, the replies
  \<open>reasoning + "\n[[A]]"\<close>, \<open>... + "\n[[B]]"\<close> and \<open>... + "\n[[C]]"\<close> parse to the
  value \<open>"A"\<close>, \<open>"B"\<close> and \<open>None\<close>, with the score 1, 0 and 0.5, and the reasoning
  returned is the reasoning text without its leading whitespace; it is the whole text
  before the final line when that text does not begin with whitespace.
\<close>

theorem parse_valid_replies:
  assumes "\<exists>c\<in>set r. \<not> isspace c"
  shows "parse (r @ nl # str ''[[A]]'') =
           Inr \<lparr>reasoning = lstrip r, value = Some (str ''A''), score = Some 1\<rparr> \<and>
         parse (r @ nl # str ''[[B]]'') =
           Inr \<lparr>reasoning = lstrip r, value = Some (str ''B''), score = Some 0\<rparr> \<and>
         parse (r @ nl # str ''[[C]]'') =
           Inr \<lparr>reasoning = lstrip r, value = None, score = Some (1 / 2)\<rparr> \<and>
         (\<not> isspace (hd r) \<longrightarrow> lstrip r = r)"
proof -
  have a: "parse (r @ nl # str ''[[A]]'') =
           Inr \<lparr>reasoning = lstrip r, value = Some (str ''A''), score = Some 1\<rparr>"
    using parse_bracketed [OF assms, of "of_char CHR ''A''" 2 2]
    by (simp add: str_def isspace_def score_table_def numeral_2_eq_2)
  have b: "parse (r @ nl # str ''[[B]]'') =
           Inr \<lparr>reasoning = lstrip r, value = Some (str ''B''), score = Some 0\<rparr>"
    using parse_bracketed [OF assms, of "of_char CHR ''B''" 2 2]
    by (simp add: str_def isspace_def score_table_def numeral_2_eq_2)
  have c: "parse (r @ nl # str ''[[C]]'') =
           Inr \<lparr>reasoning = lstrip r, value = None, score = Some (1 / 2)\<rparr>"
    using parse_bracketed [OF assms, of "of_char CHR ''C''" 2 2]
    by (simp add: str_def isspace_def score_table_def numeral_2_eq_2)
  have "r \<noteq> []"
    using assms by auto
  then have d: "\<not> isspace (hd r) \<longrightarrow> lstrip r = r"
    by (simp add: lstrip_id)
  from a b c d show ?thesis by blast
qed

text \<open>The reply of the end-to-end scenario: its reasoning comes back unchanged.\<close>

theorem parse_valid_replies_witness:
  "(\<exists>c\<in>set (str ''Both are correct, B is more detailed.''). \<not> isspace c) \<and>
   \<not> isspace (hd (str ''Both are correct, B is more detailed.'')) \<and>
   parse (str ''Both are correct, B is more detailed.\<newline>[[B]]'') =
     Inr \<lparr>reasoning = str ''Both are correct, B is more detailed.'',
          value = Some (str ''B''), score = Some 0\<rparr>"
proof -
  have h: "\<exists>c\<in>set (str ''Both are correct, B is more detailed.''). \<not> isspace c"
    by (simp add: str_def isspace_def)
  have h': "\<not> isspace (hd (str ''Both are correct, B is more detailed.''))"
    by (simp add: str_def isspace_def)
  have "parse (str ''Both are correct, B is more detailed.\<newline>[[B]]'') =
     Inr \<lparr>reasoning = str ''Both are correct, B is more detailed.'',
          value = Some (str ''B''), score = Some 0\<rparr>"
    using parse_valid_replies [OF h] h' by (simp add: str_def nl_def)
  with h h' show ?thesis by blast
qed

text \<open>
  C1, as the spec states it, fails: the reply \<open>" x\n[[A]]"\<close> has the reasoning \<open>" x"\<close>
  before its final line, and the parser does not return that reasoning (it returns
  \<open>"x"\<close>); the reply \<open>"\n[[A]]"\<close>, whose reasoning is empty, is not parsed at all.
\<close>

theorem parse_leading_whitespace_counterexample:
  "parse (str '' x\<newline>[[A]]'') \<noteq>
     Inr \<lparr>reasoning = str '' x'', value = Some (str ''A''), score = Some 1\<rparr> \<and>
   parse (str '' x\<newline>[[A]]'') =
     Inr \<lparr>reasoning = str ''x'', value = Some (str ''A''), score = Some 1\<rparr> \<and>
   parse (str ''\<newline>[[A]]'') =
     Inl (ValueError (str ''not enough values to unpack (expected 2, got 1)''))"
  by (simp add: parse_def str_def strip_def lstrip_def rstrip_def isspace_def nl_def
      strip_chars_def score_table_def)

text \<open>
  C2. A reply that has no line feed once it is trimmed is not parsed: the split yields
  one part, and unpacking it into reasoning and verdict raises \<open>ValueError\<close>.
\<close>

theorem parse_single_line:
  assumes "nl \<notin> set (strip text)"
  shows "parse text = Inl (ValueError (str ''not enough values to unpack (expected 2, got 1)''))"
  unfolding parse_def rsplit_no_sep [OF assms] by simp

theorem parse_single_line_witness:
  "nl \<notin> set (strip (str ''  [[A]] '')) \<and>
   parse (str ''  [[A]] '') =
     Inl (ValueError (str ''not enough values to unpack (expected 2, got 1)''))"
proof -
  have h: "nl \<notin> set (strip (str ''  [[A]] ''))"
    by (simp add: str_def strip_def lstrip_def rstrip_def isspace_def nl_def)
  from h parse_single_line [OF h] show ?thesis by blast
qed

text \<open>
  C3, as the code has it. When the trimmed reply splits at its last line feed into a
  reasoning and a final line, and the token left of that line by the two bracket strips is
  none of \<open>A\<close>, \<open>B\<close>, \<open>C\<close>, the parser raises \<open>ValueError\<close> with the message
  \<open>Invalid verdict: <token>. Verdict must be one of 'A', 'B', or 'C'.\<close>, which has the
  token in it.
\<close>

theorem parse_invalid_verdict:
  assumes "rsplit nl 1 (strip text) = [before, line]"
    and "tok = strip_chars (str '']'') (strip_chars (str ''['') line)"
    and "tok \<notin> {str ''A'', str ''B'', str ''C''}"
  shows "parse text = Inl (ValueError (str ''Invalid verdict: '' @ tok @
                        str ''. Verdict must be one of 'A', 'B', or 'C'.'')) \<and>
         (\<exists>pre post. parse text = Inl (ValueError (pre @ tok @ post)))"
proof -
  have "parse text = Inl (ValueError (str ''Invalid verdict: '' @ tok @
                        str ''. Verdict must be one of 'A', 'B', or 'C'.''))"
    unfolding parse_def assms(1) using assms(2,3) by (simp add: Let_def)
  then show ?thesis by blast
qed

theorem parse_invalid_verdict_witness:
  "rsplit nl 1 (strip (str ''Neither is right.\<newline>[[D]]'')) =
     [str ''Neither is right.'', str ''[[D]]''] \<and>
   str ''D'' = strip_chars (str '']'') (strip_chars (str ''['') (str ''[[D]]'')) \<and>
   str ''D'' \<notin> {str ''A'', str ''B'', str ''C''} \<and>
   parse (str ''Neither is right.\<newline>[[D]]'') =
     Inl (ValueError (str ''Invalid verdict: D. Verdict must be one of 'A', 'B', or 'C'.''))"
proof -
  have h1: "rsplit nl 1 (strip (str ''Neither is right.\<newline>[[D]]'')) =
      [str ''Neither is right.'', str ''[[D]]'']"
    by (simp add: str_def strip_def lstrip_def rstrip_def isspace_def nl_def)
  have h2: "str ''D'' = strip_chars (str '']'') (strip_chars (str ''['') (str ''[[D]]''))"
    by (simp add: str_def strip_chars_def)
  have h3: "str ''D'' \<notin> {str ''A'', str ''B'', str ''C''}"
    by (simp add: str_def)
  have "parse (str ''Neither is right.\<newline>[[D]]'') =
     Inl (ValueError (str ''Invalid verdict: D. Verdict must be one of 'A', 'B', or 'C'.''))"
    using parse_invalid_verdict [OF h1 h2 h3] by (simp add: str_def)
  with h1 h2 h3 show ?thesis by blast
qed

text \<open>
  C3, as the spec states it, fails for a reply that is a single line once it is trimmed:
  the final line of \<open>"[[D]]"\<close> and of \<open>"\n[[D]]"\<close> is \<open>[[D]]\<close>, its token is \<open>D\<close>, and
  the error that the parser raises is the one of the unpacking, whose message has no
  \<open>D\<close> in it.
\<close>

theorem single_line_token_counterexample:
  "strip_chars (str '']'') (strip_chars (str ''['') (str ''[[D]]'')) = str ''D'' \<and>
   str ''D'' \<notin> {str ''A'', str ''B'', str ''C''} \<and>
   parse (str ''[[D]]'') =
     Inl (ValueError (str ''not enough values to unpack (expected 2, got 1)'')) \<and>
   parse (str ''\<newline>[[D]]'') =
     Inl (ValueError (str ''not enough values to unpack (expected 2, got 1)'')) \<and>
   of_char CHR ''D'' \<notin> set (str ''not enough values to unpack (expected 2, got 1)'')"
  by (simp add: parse_def str_def strip_def lstrip_def rstrip_def isspace_def nl_def
      strip_chars_def)

text \<open>
  C4, as the code has it. \<open>strip("[")\<close> followed by \<open>strip("]")\<close> takes away every
  leading \<open>[\<close> and every trailing \<open>]\<close>, however many there are. For every reasoning
  text, a reply whose final line is \<open>A\<close> between any number of \<open>[\<close> and any number of
  \<open>]\<close> (so \<open>[A]\<close> and \<open>[[[A]]\<close>) is parsed exactly as the reply with the final line
  \<open>[[A]]\<close> is: to the value \<open>"A"\<close> when the reasoning has a character other than
  whitespace, and with the same error of the split when it has none.
\<close>

theorem bracket_stripping_any_number:
  "strip_chars (str '']'') (strip_chars (str ''['')
     (concat (replicate n (str ''['')) @ str ''A'' @ concat (replicate m (str '']'')))) = str ''A'' \<and>
   parse (r @ nl # concat (replicate n (str ''['')) @ str ''A'' @ concat (replicate m (str '']''))) =
     parse (r @ nl # str ''[[A]]'') \<and>
   ((\<exists>c\<in>set r. \<not> isspace c) \<longrightarrow>
      parse (r @ nl # concat (replicate n (str ''['')) @ str ''A'' @ concat (replicate m (str '']''))) =
        Inr \<lparr>reasoning = lstrip r, value = Some (str ''A''), score = Some 1\<rparr>) \<and>
   ((\<forall>c\<in>set r. isspace c) \<longrightarrow>
      parse (r @ nl # concat (replicate n (str ''['')) @ str ''A'' @ concat (replicate m (str '']''))) =
        Inl (ValueError (str ''not enough values to unpack (expected 2, got 1)'')))"
proof -
  let ?reply = "\<lambda>n m. r @ nl # concat (replicate n (str ''['')) @ of_char CHR ''A'' #
                  concat (replicate m (str '']''))"
  have t: "\<not> isspace (of_char CHR ''A'')" "of_char CHR ''A'' \<noteq> (of_char CHR ''['' :: nat)"
    "of_char CHR ''A'' \<noteq> (of_char CHR '']'' :: nat)"
    by (simp_all add: isspace_def)
  have ok: "parse (?reply n m) =
        Inr \<lparr>reasoning = lstrip r, value = Some (str ''A''), score = Some 1\<rparr>"
    if "\<exists>c\<in>set r. \<not> isspace c" for n m
    using parse_bracketed [OF that t, of n m] by (simp add: str_def score_table_def)
  have bad: "parse (?reply n m) =
        Inl (ValueError (str ''not enough values to unpack (expected 2, got 1)''))"
    if "\<forall>c\<in>set r. isspace c" for n m
    using parse_blank_reasoning [OF that t, of n m] .
  have two: "?reply 2 2 = r @ nl # str ''[[A]]''"
    by (simp add: str_def numeral_2_eq_2)
  have "parse (?reply n m) = parse (?reply 2 2)"
  proof (cases "\<exists>c\<in>set r. \<not> isspace c")
    case True
    then show ?thesis by (simp only: ok)
  next
    case False
    then have "\<forall>c\<in>set r. isspace c" by blast
    then show ?thesis by (simp only: bad)
  qed
  then have same: "parse (?reply n m) = parse (r @ nl # str ''[[A]]'')"
    by (simp only: two)
  have A: "str ''A'' @ xs = of_char CHR ''A'' # xs" for xs
    by (simp add: str_def)
  have tok: "strip_chars (str '']'') (strip_chars (str ''['')
      (concat (replicate n (str ''['')) @ of_char CHR ''A'' # concat (replicate m (str '']'')))) =
      str ''A''"
    using bracket_token [OF t(2,3), of n m] by (simp add: str_def concat_replicate_single)
  show ?thesis
    unfolding A using tok same ok [of n m] bad [of n m] by blast
qed

theorem bracket_stripping_any_number_witness:
  "parse (str ''x\<newline>[A]'') = parse (str ''x\<newline>[[A]]'') \<and>
   parse (str ''x\<newline>[[[A]]'') = parse (str ''x\<newline>[[A]]'') \<and>
   (\<exists>c\<in>set (str ''x''). \<not> isspace c) \<and>
   parse (str ''x\<newline>[A]'') = Inr \<lparr>reasoning = str ''x'', value = Some (str ''A''), score = Some 1\<rparr> \<and>
   parse (str ''x\<newline>[[[A]]'') = Inr \<lparr>reasoning = str ''x'', value = Some (str ''A''), score = Some 1\<rparr> \<and>
   list_all isspace (str '' '') \<and>
   parse (str '' \<newline>[A]'') = Inl (ValueError (str ''not enough values to unpack (expected 2, got 1)''))"
proof -
  have h: "\<exists>c\<in>set (str ''x''). \<not> isspace c"
    by (simp add: str_def isspace_def)
  have b: "\<forall>c\<in>set (str '' ''). isspace c"
    by (simp add: str_def isspace_def)
  have l: "lstrip (str ''x'') = str ''x''"
    by (simp add: str_def lstrip_def isspace_def)
  have e1: "str ''x'' @ nl # concat (replicate 1 (str ''['')) @ str ''A'' @
      concat (replicate 1 (str '']'')) = str ''x\<newline>[A]''"
    by (simp add: str_def nl_def)
  have e2: "str ''x'' @ nl # str ''[[A]]'' = str ''x\<newline>[[A]]''"
    by (simp add: str_def nl_def)
  have e3: "str ''x'' @ nl # concat (replicate 3 (str ''['')) @ str ''A'' @
      concat (replicate 2 (str '']'')) = str ''x\<newline>[[[A]]''"
    by (simp add: str_def nl_def numeral_2_eq_2 numeral_3_eq_3)
  have e4: "str '' '' @ nl # concat (replicate 1 (str ''['')) @ str ''A'' @
      concat (replicate 1 (str '']'')) = str '' \<newline>[A]''"
    by (simp add: str_def nl_def)
  note one = bracket_stripping_any_number [where r = "str ''x''" and n = 1 and m = 1,
      unfolded e1 e2 l]
  note three = bracket_stripping_any_number [where r = "str ''x''" and n = 3 and m = 2,
      unfolded e3 e2 l]
  note blank = bracket_stripping_any_number [where r = "str '' ''" and n = 1 and m = 1,
      unfolded e4]
  have b': "list_all isspace (str '' '')"
    using b by (simp add: list_all_iff)
  from one three blank h b b' show ?thesis by blast
qed

text \<open>
  C4, as the spec states it, fails for the empty reasoning text: the replies \<open>"\n[A]"\<close>
  and \<open>"\n[[[A]]"\<close> are not parsed.
\<close>

theorem empty_reasoning_counterexample:
  "parse (str ''\<newline>[A]'') = Inl (ValueError (str ''not enough values to unpack (expected 2, got 1)'')) \<and>
   parse (str ''\<newline>[[[A]]'') = Inl (ValueError (str ''not enough values to unpack (expected 2, got 1)''))"
  by (simp add: parse_def str_def strip_def lstrip_def rstrip_def isspace_def nl_def)

text \<open>
  C5. Whenever the parser returns a result, the score is the entry of the score table for
  the returned value: \<open>"A"\<close> has 1, \<open>"B"\<close> has 0, \<open>None\<close> has 0.5, and no other value
  is returned. The reasoning has no part in it.
\<close>

theorem score_function_of_value:
  assumes "parse text = Inr res"
  shows "score res = score_table (value res) \<and>
         (value res = Some (str ''A'') \<and> score res = Some 1 \<or>
          value res = Some (str ''B'') \<and> score res = Some 0 \<or>
          value res = None \<and> score res = Some (1 / 2))"
  using assms
  by (auto simp: parse_def Let_def score_table_def str_def split: sum.splits prod.splits if_splits)

theorem score_function_of_value_witness:
  "parse (str ''Long and careful reasoning.\<newline>[[C]]'') =
     Inr \<lparr>reasoning = str ''Long and careful reasoning.'', value = None, score = Some (1 / 2)\<rparr> \<and>
   score \<lparr>reasoning = str ''Long and careful reasoning.'', value = None, score = Some (1 / 2)\<rparr> =
     score_table None"
proof -
  have h: "parse (str ''Long and careful reasoning.\<newline>[[C]]'') =
     Inr \<lparr>reasoning = str ''Long and careful reasoning.'', value = None, score = Some (1 / 2)\<rparr>"
    by (simp add: parse_def str_def strip_def lstrip_def rstrip_def isspace_def nl_def
      strip_chars_def score_table_def)
  from h score_function_of_value [OF h] show ?thesis by simp
qed

section \<open>Claims about the pairwise comparison evaluator\<close>

lemma requires_input_chain: "requires_input (as_evaluator self)"
  by (simp add: as_evaluator_def)


lemma reference_chain_requires: "requires_reference (as_evaluator reference_chain)"
  by (simp add: as_evaluator_def reference_chain_def reference_prompt_def)

lemma plain_chain_requires: "\<not> requires_reference (as_evaluator plain_chain)"
  by (simp add: as_evaluator_def plain_chain_def plain_prompt_def str_def)

text \<open>
  C6. With a supplied template, \<open>from_llm\<close> returns a chain exactly when the set of the
  template's declared input variables is \<open>{prediction, prediction_b, input}\<close>, with
  \<open>reference\<close> added when \<open>requires_reference\<close> is true; the chain then holds that
  template. With \<open>requires_reference\<close> true and a template without \<open>reference\<close> it
  raises the error about the input variables.
\<close>

theorem from_llm_supplied_prompt:
  "((\<exists>self. from_llm PROMPT PROMPT_WITH_REFERENCE cls llm' (Some p) requires_reference' = Inr self) \<longleftrightarrow>
      set (input_variables p) =
        {str ''prediction'', str ''prediction_b'', str ''input''} \<union>
        (if requires_reference' then {str ''reference''} else {})) \<and>
   (set (input_variables p) =
        {str ''prediction'', str ''prediction_b'', str ''input''} \<union>
        (if requires_reference' then {str ''reference''} else {}) \<longrightarrow>
      from_llm PROMPT PROMPT_WITH_REFERENCE cls llm' (Some p) requires_reference' =
        Inr \<lparr>cls_name = cls, llm = llm', prompt = p\<rparr>) \<and>
   (str ''reference'' \<notin> set (input_variables p) \<longrightarrow>
      from_llm PROMPT PROMPT_WITH_REFERENCE cls llm' (Some p) True =
        Inl (InputVariablesError
               {str ''prediction'', str ''prediction_b'', str ''input'', str ''reference''}
               (input_variables p)))"
  by (auto simp: from_llm_def Let_def)

theorem from_llm_supplied_prompt_witness:
  "set (input_variables plain_prompt) =
     {str ''prediction'', str ''prediction_b'', str ''input''} \<union> (if False then {str ''reference''} else {}) \<and>
   from_llm plain_prompt reference_prompt (str ''PairwiseStringEvalChain'') () (Some plain_prompt) False =
     Inr \<lparr>cls_name = str ''PairwiseStringEvalChain'', llm = (), prompt = plain_prompt\<rparr> \<and>
   str ''reference'' \<notin> set (input_variables plain_prompt) \<and>
   from_llm plain_prompt reference_prompt (str ''PairwiseStringEvalChain'') () (Some plain_prompt) True =
     Inl (InputVariablesError
            {str ''prediction'', str ''prediction_b'', str ''input'', str ''reference''}
            (input_variables plain_prompt))"
proof -
  have h1: "set (input_variables plain_prompt) =
     {str ''prediction'', str ''prediction_b'', str ''input''} \<union> (if False then {str ''reference''} else {})"
    by (simp add: plain_prompt_def)
  have h2: "str ''reference'' \<notin> set (input_variables plain_prompt)"
    by (simp add: plain_prompt_def str_def)
  from h1 h2
    from_llm_supplied_prompt [of plain_prompt reference_prompt "str ''PairwiseStringEvalChain''" "()"
      plain_prompt False]
    from_llm_supplied_prompt [of plain_prompt reference_prompt "str ''PairwiseStringEvalChain''" "()"
      plain_prompt True]
  show ?thesis by blast
qed



text \<open>
  C8, as the code has it. The input is checked first: a required input that is \<open>None\<close>
  raises \<open>ValueError\<close> before anything is emitted; an input that is given and not
  required is warned about, and the check goes on to the reference. A required reference
  that is \<open>None\<close> raises \<open>ValueError\<close> in every case. Once the input check has not raised,
  a reference that is given and not required is warned about, and the check returns.
\<close>

theorem check_evaluation_args_rules:
  "(requires_input self \<and> input = None \<longrightarrow>
      check_evaluation_args self reference input =
        ([], Inl (ValueError (class_name self @ str '' requires an input string.'')))) \<and>
   (\<not> requires_input self \<and> input \<noteq> None \<longrightarrow>
      hd (fst (check_evaluation_args self reference input)) = skip_input_warning self \<and>
      skip_input_warning self \<in> set (fst (check_evaluation_args self reference input)) \<and>
      snd (check_evaluation_args self reference input) =
        (if requires_reference self \<and> reference = None
         then Inl (ValueError (class_name self @ str '' requires a reference string.''))
         else Inr ())) \<and>
   (requires_reference self \<and> reference = None \<longrightarrow>
      (\<exists>msg. snd (check_evaluation_args self reference input) = Inl (ValueError msg)) \<and>
      (\<not> (requires_input self \<and> input = None) \<longrightarrow>
         snd (check_evaluation_args self reference input) =
           Inl (ValueError (class_name self @ str '' requires a reference string.'')))) \<and>
   (\<not> (requires_input self \<and> input = None) \<and> \<not> requires_reference self \<and> reference \<noteq> None \<longrightarrow>
      last (fst (check_evaluation_args self reference input)) = skip_reference_warning self \<and>
      skip_reference_warning self \<in> set (fst (check_evaluation_args self reference input)) \<and>
      snd (check_evaluation_args self reference input) = Inr ())"
  by (simp add: check_evaluation_args_def Let_def)

theorem check_evaluation_args_rules_witness:
  "requires_input (as_evaluator plain_chain) \<and>
   \<not> requires_reference (as_evaluator plain_chain) \<and>
   check_evaluation_args (as_evaluator plain_chain) None None =
     ([], Inl (ValueError (str ''PairwiseStringEvalChain requires an input string.''))) \<and>
   last (fst (check_evaluation_args (as_evaluator plain_chain) (Some (str ''H2O''))
                (Some (str ''Water?'')))) = skip_reference_warning (as_evaluator plain_chain) \<and>
   snd (check_evaluation_args (as_evaluator plain_chain) (Some (str ''H2O''))
          (Some (str ''Water?''))) = Inr () \<and>
   \<not> requires_input (EvalArgsMixin (str ''E'')) \<and>
   hd (fst (check_evaluation_args (EvalArgsMixin (str ''E'')) None (Some (str ''Water?'')))) =
     str ''Ignoring input in E, as it is not expected.'' \<and>
   snd (check_evaluation_args (EvalArgsMixin (str ''E'')) None (Some (str ''Water?''))) = Inr () \<and>
   requires_reference (as_evaluator reference_chain) \<and>
   snd (check_evaluation_args (as_evaluator reference_chain) None (Some (str ''Water?''))) =
     Inl (ValueError (str ''PairwiseStringEvalChain requires a reference string.''))"
proof -
  have a: "requires_input (as_evaluator plain_chain)"
    by (rule requires_input_chain)
  have b: "\<not> requires_reference (as_evaluator plain_chain)"
    by (rule plain_chain_requires)
  have c: "check_evaluation_args (as_evaluator plain_chain) None None =
     ([], Inl (ValueError (str ''PairwiseStringEvalChain requires an input string.'')))"
    using check_evaluation_args_rules [where self = "as_evaluator plain_chain" and input = None
        and reference = None] a
    by (simp add: as_evaluator_def plain_chain_def EvalArgsMixin_def str_def)
  have d: "last (fst (check_evaluation_args (as_evaluator plain_chain) (Some (str ''H2O''))
                (Some (str ''Water?'')))) = skip_reference_warning (as_evaluator plain_chain) \<and>
      snd (check_evaluation_args (as_evaluator plain_chain) (Some (str ''H2O''))
          (Some (str ''Water?''))) = Inr ()"
    using check_evaluation_args_rules [where self = "as_evaluator plain_chain"
        and input = "Some (str ''Water?'')" and reference = "Some (str ''H2O'')"] a b
    by simp
  have e0: "\<not> requires_input (EvalArgsMixin (str ''E''))"
    "\<not> requires_reference (EvalArgsMixin (str ''E''))"
    by (simp_all add: EvalArgsMixin_def)
  have e: "hd (fst (check_evaluation_args (EvalArgsMixin (str ''E'')) None (Some (str ''Water?'')))) =
      str ''Ignoring input in E, as it is not expected.'' \<and>
      snd (check_evaluation_args (EvalArgsMixin (str ''E'')) None (Some (str ''Water?''))) = Inr ()"
    using check_evaluation_args_rules [where self = "EvalArgsMixin (str ''E'')"
        and input = "Some (str ''Water?'')" and reference = None] e0
    by (simp add: EvalArgsMixin_def str_def)
  have f: "snd (check_evaluation_args (as_evaluator reference_chain) None (Some (str ''Water?''))) =
     Inl (ValueError (str ''PairwiseStringEvalChain requires a reference string.''))"
    using check_evaluation_args_rules [where self = "as_evaluator reference_chain"
        and input = "Some (str ''Water?'')" and reference = None]
      reference_chain_requires
    by (simp add: as_evaluator_def reference_chain_def EvalArgsMixin_def str_def)
  from a b c d e0 e f reference_chain_requires show ?thesis by blast
qed

text \<open>
  C8, as the spec states it, fails where the two rules meet: the evaluator requires an
  input and no reference, the input is \<open>None\<close> and a reference is given. The check raises
  for the input and no warning about the reference is emitted.
\<close>

theorem reference_warning_counterexample:
  "\<not> requires_reference (as_evaluator plain_chain) \<and>
   check_evaluation_args (as_evaluator plain_chain) (Some (str ''H2O'')) None =
     ([], Inl (ValueError (str ''PairwiseStringEvalChain requires an input string.'')))"
  by (simp add: check_evaluation_args_def as_evaluator_def plain_chain_def plain_prompt_def
      EvalArgsMixin_def str_def)

text \<open>
  C9. The synchronous and the asynchronous path run the same check and hand the same
  payload to their completion call: whenever the two calls answer the payload of
  \<open>_prepare_input\<close> alike, \<open>aevaluate_string_pairs\<close> and \<open>evaluate_string_pairs\<close> emit
  the same warnings and end in the same result or the same error.
\<close>

theorem sync_async_same_checks_and_payload:
  assumes "\<forall>payload. prepare_input self prediction prediction_b input reference = Inr payload \<longrightarrow>
             acall payload = call payload"
  shows "aevaluate_string_pairs (as_evaluator self) (private_aevaluate_string_pairs acall self)
           prediction prediction_b reference input =
         evaluate_string_pairs (as_evaluator self) (private_evaluate_string_pairs call self)
           prediction prediction_b reference input"
proof -
  have "private_aevaluate_string_pairs acall self prediction prediction_b reference input =
        private_evaluate_string_pairs call self prediction prediction_b reference input"
    using assms
    by (simp add: private_aevaluate_string_pairs_def private_evaluate_string_pairs_def
        split: sum.splits)
  then show ?thesis
    by (simp add: aevaluate_string_pairs_def evaluate_string_pairs_def
        split: prod.splits sum.splits)
qed

theorem sync_async_same_checks_and_payload_witness:
  "aevaluate_string_pairs (as_evaluator plain_chain) (private_aevaluate_string_pairs canned_call plain_chain)
     (str ''H2O'') (str ''Water is H2O'') None (Some (str ''Water?'')) =
     ([], Inr \<lparr>reasoning = str ''Both are correct, B is more detailed.'',
               value = Some (str ''B''), score = Some 0\<rparr>) \<and>
   evaluate_string_pairs (as_evaluator plain_chain) (private_evaluate_string_pairs canned_call plain_chain)
     (str ''H2O'') (str ''Water is H2O'') None (Some (str ''Water?'')) =
     ([], Inr \<lparr>reasoning = str ''Both are correct, B is more detailed.'',
               value = Some (str ''B''), score = Some 0\<rparr>)"
proof -
  have h: "\<forall>payload. prepare_input plain_chain (str ''H2O'') (str ''Water is H2O'') (Some (str ''Water?'')) None
       = Inr payload \<longrightarrow> canned_call payload = canned_call payload"
    by simp
  have s: "evaluate_string_pairs (as_evaluator plain_chain) (private_evaluate_string_pairs canned_call plain_chain)
     (str ''H2O'') (str ''Water is H2O'') None (Some (str ''Water?'')) =
     ([], Inr \<lparr>reasoning = str ''Both are correct, B is more detailed.'',
               value = Some (str ''B''), score = Some 0\<rparr>)"
    using plain_chain_requires
    by (simp add: evaluate_string_pairs_def check_evaluation_args_def requires_input_chain
        private_evaluate_string_pairs_def prepare_input_def canned_call_def)
       (simp add: str_def)
  from s sync_async_same_checks_and_payload [OF h] show ?thesis by simp
qed

text \<open>
  C10. \<open>requires_input\<close> is true of every chain, whatever its model and its template,
  hence of every chain that \<open>from_llm\<close> returns. An evaluation whose input is \<open>None\<close> or
  the empty string therefore ends in a \<open>ValueError\<close>, on both paths, whatever the
  completion call would answer.
\<close>

theorem input_always_required:
  "requires_input (as_evaluator self) \<and>
   (from_llm PROMPT PROMPT_WITH_REFERENCE cls llm' prompt' requires_reference' = Inr self \<longrightarrow>
      requires_input (as_evaluator self)) \<and>
   (input = None \<or> input = Some [] \<longrightarrow>
      (\<exists>msg. snd (evaluate_string_pairs (as_evaluator self) (private_evaluate_string_pairs call self)
                prediction prediction_b reference input) = Inl (ValueError msg)) \<and>
      (\<exists>msg. snd (aevaluate_string_pairs (as_evaluator self) (private_aevaluate_string_pairs acall self)
                prediction prediction_b reference input) = Inl (ValueError msg)))"
  by (auto simp: requires_input_chain evaluate_string_pairs_def aevaluate_string_pairs_def
      check_evaluation_args_def private_evaluate_string_pairs_def
      private_aevaluate_string_pairs_def prepare_input_def Let_def)


theorem input_always_required_witness:
  "from_llm plain_prompt reference_prompt (str ''PairwiseStringEvalChain'') () (Some plain_prompt)
     False = Inr plain_chain \<and>
   requires_input (as_evaluator plain_chain) \<and>
   (\<exists>msg. snd (evaluate_string_pairs (as_evaluator plain_chain)
                 (private_evaluate_string_pairs canned_call plain_chain)
                 (str ''H2O'') (str ''Water is H2O'') None None) = Inl (ValueError msg)) \<and>
   (\<exists>msg. snd (aevaluate_string_pairs (as_evaluator plain_chain)
                 (private_aevaluate_string_pairs canned_call plain_chain)
                 (str ''H2O'') (str ''Water is H2O'') None (Some [])) = Inl (ValueError msg))"
proof -
  have made: "from_llm plain_prompt reference_prompt (str ''PairwiseStringEvalChain'') ()
      (Some plain_prompt) False = Inr plain_chain"
    by (simp add: from_llm_def plain_chain_def plain_prompt_def)
  note absent = input_always_required [where self = plain_chain and PROMPT = plain_prompt
      and PROMPT_WITH_REFERENCE = reference_prompt and cls = "str ''PairwiseStringEvalChain''"
      and llm' = "()" and prompt' = "Some plain_prompt" and requires_reference' = False
      and input = None and reference = None and call = canned_call and acall = canned_call
      and prediction = "str ''H2O''" and prediction_b = "str ''Water is H2O''"]
  note empty = input_always_required [where self = plain_chain and PROMPT = plain_prompt
      and PROMPT_WITH_REFERENCE = reference_prompt and cls = "str ''PairwiseStringEvalChain''"
      and llm' = "()" and prompt' = "Some plain_prompt" and requires_reference' = False
      and input = "Some []" and reference = None and call = canned_call and acall = canned_call
      and prediction = "str ''H2O''" and prediction_b = "str ''Water is H2O''"]
  from made absent empty show ?thesis by blast
qed

end
